theory Spec2Isabelle
  imports Main
begin

section \<open>The tonkon log bot (tonkonbot.py)\<close>

text \<open>
  The bot is a Twisted IRC client. Its handlers are called by the protocol layer, one
  event at a time; each handler reads the clock, writes to the log file and asks the
  protocol layer to send something. The model passes the state explicitly: the bot
  object (\<open>LogBot\<close>) and everything outside it (\<open>world\<close>: the files on disk, the
  clock, and the ordered trace of what the process did to the outside). A handler that
  raises returns \<open>Inl\<close> of the exception; what it did before raising is not part of
  that result.
\<close>

subsection \<open>Exceptions\<close>

datatype error =
    AttributeError  \<comment> \<open>\<open>self.logger\<close> read before \<open>connectionMade\<close> assigned it\<close>
  | ValueError      \<comment> \<open>I/O operation on a closed file\<close>
  | IOError         \<comment> \<open>\<open>open\<close> could not open the path\<close>
  | IndexError      \<comment> \<open>\<open>xs[0]\<close> on an empty list\<close>

subsection \<open>Library: strings\<close>

text \<open>
  \<open>s.split(sep, maxsplit)\<close> for a one-character separator; \<open>None\<close> is the call
  without \<open>maxsplit\<close>. The result is never empty: \<open>''''.split('!')\<close> is \<open>['''']\<close>.
\<close>

fun str_split :: "char \<Rightarrow> nat option \<Rightarrow> string \<Rightarrow> string list" where
  "str_split sep (Some 0) s = [s]"
| "str_split sep m [] = [[]]"
| "str_split sep m (c # cs) =
     (if c = sep then [] # str_split sep (map_option (\<lambda>n. n - 1) m) cs
      else (case str_split sep m cs of
              [] \<Rightarrow> [[c]]
            | p # ps \<Rightarrow> (c # p) # ps))"

text \<open>\<open>xs[0]\<close>.\<close>

fun item0 :: "'a list \<Rightarrow> error + 'a" where
  "item0 [] = Inl IndexError"
| "item0 (x # _) = Inr x"

subsection \<open>Library: time\<close>

text \<open>
  \<open>time.localtime(time.time())\<close> yields a \<open>struct_time\<close>; the fields the bot's two
  formats read are kept. \<open>tm_mon\<close> counts from 1 and \<open>tm_wday\<close> from Monday = 0, as in
  Python.
\<close>

record struct_time =
  tm_year :: nat
  tm_mon :: nat
  tm_mday :: nat
  tm_hour :: nat
  tm_min :: nat
  tm_sec :: nat
  tm_wday :: nat

definition digit :: "nat \<Rightarrow> char" where
  "digit n = ''0123456789'' ! (n mod 10)"

fun dec :: "nat \<Rightarrow> string" where
  "dec n = (if n < 10 then [digit n] else dec (n div 10) @ [digit n])"

text \<open>The C conversion \<open>%.2d\<close> (at least two digits, zero filled).\<close>

definition pad2 :: "nat \<Rightarrow> string" where
  "pad2 n = (if n < 10 then CHR ''0'' # dec n else dec n)"

text \<open>The C conversion \<open>%3d\<close> (width three, blank filled).\<close>

definition pad3_blank :: "nat \<Rightarrow> string" where
  "pad3_blank n = replicate (3 - length (dec n)) CHR '' '' @ dec n"

text \<open>\<open>time.strftime("[%H:%M:%S]", t)\<close>.\<close>

definition strftime_HMS :: "struct_time \<Rightarrow> string" where
  "strftime_HMS t =
     ''['' @ pad2 (tm_hour t) @ '':'' @ pad2 (tm_min t) @ '':'' @ pad2 (tm_sec t) @ '']''"

definition wday_name :: "nat \<Rightarrow> string" where
  "wday_name d =
     (if d < 7 then [''Mon'', ''Tue'', ''Wed'', ''Thu'', ''Fri'', ''Sat'', ''Sun''] ! d
      else ''???'')"

definition mon_name :: "nat \<Rightarrow> string" where
  "mon_name m =
     (if 1 \<le> m \<and> m \<le> 12
      then [''Jan'', ''Feb'', ''Mar'', ''Apr'', ''May'', ''Jun'',
            ''Jul'', ''Aug'', ''Sep'', ''Oct'', ''Nov'', ''Dec''] ! (m - 1)
      else ''???'')"

text \<open>
  \<open>time.asctime(t)\<close>: the C library's \<open>asctime\<close> without its final newline, as in
  \<open>Sun Jun 20 23:21:05 1993\<close>.
\<close>

definition asctime :: "struct_time \<Rightarrow> string" where
  "asctime t =
     wday_name (tm_wday t) @ '' '' @ mon_name (tm_mon t) @ pad3_blank (tm_mday t) @ '' '' @
     pad2 (tm_hour t) @ '':'' @ pad2 (tm_min t) @ '':'' @ pad2 (tm_sec t) @ '' '' @
     dec (tm_year t)"

subsection \<open>The objects\<close>

text \<open>A file object opened for appending: what was written and not yet flushed.\<close>

record pyfile =
  name :: string
  buffer :: string
  closed :: bool

record MessageLogger =
  fileobj :: pyfile

text \<open>
  \<open>LogBotFactory\<close>: the key is whatever the configuration holds (\<open>None\<close> for no
  key); the database connection is a handle the bot only passes on.
\<close>

record LogBotFactory =
  channel :: string
  key :: "string option"
  db :: nat
  filename :: string

text \<open>
  \<open>LogBot\<close>: \<open>logger\<close> is \<open>None\<close> until \<open>connectionMade\<close> assigns the attribute.
  \<open>nickname\<close> is the attribute the protocol layer keeps up to date.
\<close>

record LogBot =
  nickname :: string
  factory :: LogBotFactory
  logger :: "MessageLogger option"

text \<open>The connector the reactor hands to the factory's callbacks.\<close>

record Connector =
  host :: string
  port :: nat
  connector_factory :: LogBotFactory

subsection \<open>The outside world\<close>

text \<open>
  What the process does to the outside, in the order it does it. The calls into the
  protocol layer and into the module \<open>tonkon\<close> are recorded with their arguments.
\<close>

datatype effect =
    Opened string                       \<comment> \<open>\<open>open(path, "a")\<close>\<close>
  | Wrote string string                 \<comment> \<open>data reaching the file \<open>path\<close>\<close>
  | Closed string                       \<comment> \<open>\<open>file.close()\<close>\<close>
  | IRCClient_connectionMade
  | IRCClient_connectionLost string
  | Join string "string option"         \<comment> \<open>\<open>self.join(channel, key)\<close>\<close>
  | Msg string string                   \<comment> \<open>\<open>self.msg(user, message)\<close>\<close>
  | Command LogBot string string string \<comment> \<open>\<open>tonkon.command_handler(self, user, channel, msg)\<close>\<close>
  | Connect Connector                   \<comment> \<open>\<open>connector.connect()\<close>\<close>
  | Print string                        \<comment> \<open>a line on standard output\<close>
  | ReactorStop                         \<comment> \<open>\<open>reactor.stop()\<close>\<close>

text \<open>
  \<open>disk\<close> maps a path to the file's content; \<open>openable\<close> says whether the operating
  system lets the path be opened for appending (the directory exists, the permissions
  allow it); \<open>clock\<close> gives the local time of the \<open>n\<close>-th reading and \<open>ticks\<close> counts
  the readings made.
\<close>

record world =
  disk :: "string \<Rightarrow> string option"
  openable :: "string \<Rightarrow> bool"
  clock :: "nat \<Rightarrow> struct_time"
  ticks :: nat
  trace :: "effect list"

definition emit :: "effect \<Rightarrow> world \<Rightarrow> world" where
  "emit e w = w\<lparr>trace := trace w @ [e]\<rparr>"

text \<open>\<open>time.localtime(time.time())\<close>.\<close>

definition localtime_now :: "world \<Rightarrow> struct_time \<times> world" where
  "localtime_now w = (clock w (ticks w), w\<lparr>ticks := Suc (ticks w)\<rparr>)"

definition content :: "world \<Rightarrow> string \<Rightarrow> string" where
  "content w p = (case disk w p of None \<Rightarrow> [] | Some c \<Rightarrow> c)"

text \<open>\<open>open(path, "a")\<close>: creates the file when it is missing, never truncates it.\<close>

definition open_append :: "string \<Rightarrow> world \<Rightarrow> error + (pyfile \<times> world)" where
  "open_append p w =
     (if openable w p
      then Inr (\<lparr>name = p, buffer = [], closed = False\<rparr>,
                emit (Opened p) (w\<lparr>disk := (disk w)(p \<mapsto> content w p)\<rparr>))
      else Inl IOError)"

definition file_write :: "pyfile \<Rightarrow> string \<Rightarrow> error + pyfile" where
  "file_write f s = (if closed f then Inl ValueError else Inr (f\<lparr>buffer := buffer f @ s\<rparr>))"

definition file_flush :: "pyfile \<Rightarrow> world \<Rightarrow> error + (pyfile \<times> world)" where
  "file_flush f w =
     (if closed f then Inl ValueError
      else Inr (f\<lparr>buffer := []\<rparr>,
                emit (Wrote (name f) (buffer f))
                  (w\<lparr>disk := (disk w)(name f \<mapsto> content w (name f) @ buffer f)\<rparr>)))"

text \<open>\<open>file.close()\<close> flushes what is buffered; closing a closed file does nothing.\<close>

definition file_close :: "pyfile \<Rightarrow> world \<Rightarrow> pyfile \<times> world" where
  "file_close f w =
     (if closed f then (f, w)
      else (f\<lparr>buffer := [], closed := True\<rparr>,
            emit (Closed (name f))
              (if buffer f = [] then w
               else emit (Wrote (name f) (buffer f))
                      (w\<lparr>disk := (disk w)(name f \<mapsto> content w (name f) @ buffer f)\<rparr>))))"

subsection \<open>MessageLogger\<close>

definition newline :: string where
  "newline = [CHR 0x0A]"

definition log :: "MessageLogger \<Rightarrow> string \<Rightarrow> world \<Rightarrow> error + (MessageLogger \<times> world)" where
  "log self message w =
     (case localtime_now w of (t, w1) \<Rightarrow>
      let timestamp = strftime_HMS t in
      (case file_write (fileobj self) (timestamp @ '' '' @ message @ newline) of
         Inl e \<Rightarrow> Inl e
       | Inr f1 \<Rightarrow>
           (case file_flush f1 w1 of
              Inl e \<Rightarrow> Inl e
            | Inr (f2, w2) \<Rightarrow> Inr (self\<lparr>fileobj := f2\<rparr>, w2))))"

definition close :: "MessageLogger \<Rightarrow> world \<Rightarrow> MessageLogger \<times> world" where
  "close self w = (case file_close (fileobj self) w of (f, w') \<Rightarrow> (self\<lparr>fileobj := f\<rparr>, w'))"

subsection \<open>LogBot\<close>

text \<open>\<open>self.logger.log(message)\<close>: the attribute is read first.\<close>

definition logger_log :: "LogBot \<Rightarrow> string \<Rightarrow> world \<Rightarrow> error + (LogBot \<times> world)" where
  "logger_log self message w =
     (case logger self of
        None \<Rightarrow> Inl AttributeError
      | Some lg \<Rightarrow>
          (case log lg message w of
             Inl e \<Rightarrow> Inl e
           | Inr (lg', w') \<Rightarrow> Inr (self\<lparr>logger := Some lg'\<rparr>, w')))"

definition connectionMade :: "LogBot \<Rightarrow> world \<Rightarrow> error + (LogBot \<times> world)" where
  "connectionMade self w =
     (let w1 = emit IRCClient_connectionMade w in
      case open_append (filename (factory self)) w1 of
        Inl e \<Rightarrow> Inl e
      | Inr (f, w2) \<Rightarrow>
          let self1 = self\<lparr>logger := Some \<lparr>fileobj = f\<rparr>\<rparr> in
          (case localtime_now w2 of (t, w3) \<Rightarrow>
             logger_log self1 (''[connected at '' @ asctime t @ '']'') w3))"

definition connectionLost :: "string \<Rightarrow> LogBot \<Rightarrow> world \<Rightarrow> error + (LogBot \<times> world)" where
  "connectionLost reason self w =
     (let w1 = emit (IRCClient_connectionLost reason) w in
      case logger self of
        None \<Rightarrow> Inl AttributeError
      | Some _ \<Rightarrow>
          (case localtime_now w1 of (t, w2) \<Rightarrow>
             (case logger_log self (''[disconnected at '' @ asctime t @ '']'') w2 of
                Inl e \<Rightarrow> Inl e
              | Inr (self1, w3) \<Rightarrow>
                  (case logger self1 of
                     None \<Rightarrow> Inl AttributeError
                   | Some lg \<Rightarrow>
                       (case close lg w3 of (lg', w4) \<Rightarrow>
                          Inr (self1\<lparr>logger := Some lg'\<rparr>, w4))))))"

definition signedOn :: "LogBot \<Rightarrow> world \<Rightarrow> LogBot \<times> world" where
  "signedOn self w = (self, emit (Join (channel (factory self)) (key (factory self))) w)"

definition joined :: "string \<Rightarrow> LogBot \<Rightarrow> world \<Rightarrow> error + (LogBot \<times> world)" where
  "joined chan self w = logger_log self (''[I have joined '' @ chan @ '']'') w"

text \<open>
  Modelled from the spec: \<open>tonkon.command_handler\<close> is not part of \<open>tonkonbot.py\<close>. The
  spec treats the dispatcher as an opaque callback whose return value is not consumed;
  the model records the call with its four arguments and nothing of what the callback
  does.
\<close>

definition command_handler :: "LogBot \<Rightarrow> string \<Rightarrow> string \<Rightarrow> string \<Rightarrow> world \<Rightarrow> world" where
  "command_handler conn usr chan text w = emit (Command conn usr chan text) w"

definition privmsg :: "string \<Rightarrow> string \<Rightarrow> string \<Rightarrow> LogBot \<Rightarrow> world \<Rightarrow> error + (LogBot \<times> world)" where
  "privmsg usr chan text self w =
     (case item0 (str_split CHR ''!'' (Some 1) usr) of
        Inl e \<Rightarrow> Inl e
      | Inr user \<Rightarrow>
          (case logger_log self (''<'' @ user @ ''> '' @ text) w of
             Inl e \<Rightarrow> Inl e
           | Inr (self1, w1) \<Rightarrow>
               if chan = nickname self1
               then Inr (self1,
                    emit (Msg user ''It isn't nice to whisper!  Play nice with the group.'') w1)
               else Inr (self1, command_handler self1 user chan text w1)))"

definition action :: "string \<Rightarrow> string \<Rightarrow> string \<Rightarrow> LogBot \<Rightarrow> world \<Rightarrow> error + (LogBot \<times> world)" where
  "action usr chan text self w =
     (case item0 (str_split CHR ''!'' (Some 1) usr) of
        Inl e \<Rightarrow> Inl e
      | Inr user \<Rightarrow> logger_log self (''* '' @ user @ '' '' @ text) w)"

definition irc_NICK :: "string \<Rightarrow> string list \<Rightarrow> LogBot \<Rightarrow> world \<Rightarrow> error + (LogBot \<times> world)" where
  "irc_NICK prefix params self w =
     (case item0 (str_split CHR ''!'' None prefix) of
        Inl e \<Rightarrow> Inl e
      | Inr old_nick \<Rightarrow>
          (case item0 params of
             Inl e \<Rightarrow> Inl e
           | Inr new_nick \<Rightarrow>
               logger_log self (old_nick @ '' is now known as '' @ new_nick) w))"

definition alterCollidedNick :: "string \<Rightarrow> string" where
  "alterCollidedNick nick = nick @ ''^''"

subsection \<open>LogBotFactory\<close>

definition LogBotFactory_init :: "string \<Rightarrow> string option \<Rightarrow> nat \<Rightarrow> LogBotFactory" where
  "LogBotFactory_init chan k d =
     \<lparr>channel = chan, key = k, db = d, filename = ''logs/'' @ chan\<rparr>"

definition buildProtocol :: "LogBotFactory \<Rightarrow> LogBot" where
  "buildProtocol self = \<lparr>nickname = ''tonkon'', factory = self, logger = None\<rparr>"

definition clientConnectionLost :: "LogBotFactory \<Rightarrow> Connector \<Rightarrow> string \<Rightarrow> world \<Rightarrow> world" where
  "clientConnectionLost self connector reason w = emit (Connect connector) w"

text \<open>\<open>reason\<close> stands for the text \<open>print\<close> renders the failure as.\<close>

definition clientConnectionFailed :: "LogBotFactory \<Rightarrow> Connector \<Rightarrow> string \<Rightarrow> world \<Rightarrow> world" where
  "clientConnectionFailed self connector reason w =
     emit ReactorStop (emit (Print (''connection failed: '' @ reason)) w)"

subsection \<open>Reading the trace\<close>

fun is_command :: "effect \<Rightarrow> bool" where
  "is_command (Command _ _ _ _) = True"
| "is_command _ = False"

fun is_msg :: "effect \<Rightarrow> bool" where
  "is_msg (Msg _ _) = True"
| "is_msg _ = False"

fun is_opened :: "effect \<Rightarrow> bool" where
  "is_opened (Opened _) = True"
| "is_opened _ = False"

fun is_connect :: "effect \<Rightarrow> bool" where
  "is_connect (Connect _) = True"
| "is_connect _ = False"

subsection \<open>A concrete configuration\<close>

text \<open>
  Thursday 5 June 2014, 09:05; the \<open>n\<close>-th reading of the clock falls on second \<open>n\<close>.
  The disk is empty and every path can be opened.
\<close>

definition sample_time :: "nat \<Rightarrow> struct_time" where
  "sample_time n =
     \<lparr>tm_year = 2014, tm_mon = 6, tm_mday = 5, tm_hour = 9, tm_min = 5, tm_sec = n,
      tm_wday = 3\<rparr>"

definition sample_world :: world where
  "sample_world =
     \<lparr>disk = (\<lambda>_. None), openable = (\<lambda>_. True), clock = sample_time, ticks = 0,
      trace = []\<rparr>"

definition sample_factory :: LogBotFactory where
  "sample_factory = LogBotFactory_init ''test'' (Some ''sesame'') 0"

definition sample_file :: pyfile where
  "sample_file = \<lparr>name = ''logs/test'', buffer = [], closed = False\<rparr>"

text \<open>A bot in the middle of a session: its logger is open.\<close>

definition sample_bot :: LogBot where
  "sample_bot = (buildProtocol sample_factory)\<lparr>logger := Some \<lparr>fileobj = sample_file\<rparr>\<rparr>"

section \<open>Properties\<close>

subsection \<open>Library facts\<close>

lemma str_split_first:
  "m \<noteq> Some 0 \<Longrightarrow> \<exists>ps. str_split sep m s = takeWhile (\<lambda>c. c \<noteq> sep) s # ps"
  by (induction sep m s rule: str_split.induct) (auto split: list.splits)

lemma item0_str_split:
  "m \<noteq> Some 0 \<Longrightarrow> item0 (str_split sep m s) = Inr (takeWhile (\<lambda>c. c \<noteq> sep) s)"
  using str_split_first [of m sep s] by auto

subsection \<open>The logger\<close>

lemma log_open:
  assumes "\<not> closed (fileobj lg)"
  shows "log lg m w =
    Inr (lg\<lparr>fileobj := (fileobj lg)\<lparr>buffer := []\<rparr>\<rparr>,
         w\<lparr>disk := (disk w)(name (fileobj lg) \<mapsto>
                 content w (name (fileobj lg)) @ buffer (fileobj lg) @
                 strftime_HMS (clock w (ticks w)) @ '' '' @ m @ newline),
           ticks := Suc (ticks w),
           trace := trace w @ [Wrote (name (fileobj lg))
                     (buffer (fileobj lg) @ strftime_HMS (clock w (ticks w)) @ '' '' @ m @ newline)]\<rparr>)"
  using assms
  by (simp add: log_def localtime_now_def file_write_def file_flush_def emit_def content_def Let_def)

text \<open>Once the file is closed, \<open>log\<close> is an error.\<close>

lemma log_closed: "closed (fileobj lg) \<Longrightarrow> log lg m w = Inl ValueError"
  by (simp add: log_def localtime_now_def file_write_def)

lemma logger_log_open:
  assumes "logger self = Some lg" and "\<not> closed (fileobj lg)"
  shows "logger_log self m w =
    Inr (self\<lparr>logger := Some (lg\<lparr>fileobj := (fileobj lg)\<lparr>buffer := []\<rparr>\<rparr>)\<rparr>,
         w\<lparr>disk := (disk w)(name (fileobj lg) \<mapsto>
                 content w (name (fileobj lg)) @ buffer (fileobj lg) @
                 strftime_HMS (clock w (ticks w)) @ '' '' @ m @ newline),
           ticks := Suc (ticks w),
           trace := trace w @ [Wrote (name (fileobj lg))
                     (buffer (fileobj lg) @ strftime_HMS (clock w (ticks w)) @ '' '' @ m @ newline)]\<rparr>)"
  using assms by (simp add: logger_log_def log_open)

lemma logger_log_absent: "logger self = None \<Longrightarrow> logger_log self m w = Inl AttributeError"
  by (simp add: logger_log_def)

text \<open>
  For hours, minutes and seconds in their ranges the stamp is the ten characters
  \<open>[HH:MM:SS]\<close>.
\<close>

lemma strftime_HMS_shape:
  assumes "tm_hour t < 24" and "tm_min t < 60" and "tm_sec t < 62"
  shows "strftime_HMS t =
    [CHR ''['', digit (tm_hour t div 10), digit (tm_hour t), CHR '':'',
     digit (tm_min t div 10), digit (tm_min t), CHR '':'',
     digit (tm_sec t div 10), digit (tm_sec t), CHR '']'']"
proof -
  have two: "pad2 n = [digit (n div 10), digit n]" if "n < 100" for n
  proof (cases "n < 10")
    case True
    then show ?thesis by (simp add: pad2_def digit_def)
  next
    case False
    moreover from that have "n div 10 < 10" by simp
    ultimately show ?thesis by (simp add: pad2_def)
  qed
  show ?thesis
    using assms by (simp add: strftime_HMS_def two)
qed

text \<open>
  C5: for every message \<open>m\<close>, \<open>log\<close> on an open file returns normally; the file then
  holds what it held, whatever was still pending in the file object, and the line made
  of the local time as \<open>[HH:MM:SS]\<close>, a blank, \<open>m\<close> and a newline. That is the only
  data written, and nothing is left in the buffer when \<open>log\<close> returns.
\<close>

theorem log_appends_line:
  assumes "\<not> closed (fileobj lg)"
  shows "\<exists>lg' w'. log lg m w = Inr (lg', w') \<and>
           content w' (name (fileobj lg)) =
             content w (name (fileobj lg)) @ buffer (fileobj lg) @
             strftime_HMS (clock w (ticks w)) @ '' '' @ m @ newline \<and>
           buffer (fileobj lg') = [] \<and>
           name (fileobj lg') = name (fileobj lg) \<and>
           \<not> closed (fileobj lg') \<and>
           trace w' = trace w @
             [Wrote (name (fileobj lg))
                (buffer (fileobj lg) @ strftime_HMS (clock w (ticks w)) @ '' '' @ m @ newline)]"
  using assms by (simp add: log_open content_def)

theorem log_appends_line_witness:
  "\<not> closed (fileobj \<lparr>fileobj = sample_file\<rparr>) \<and>
   (\<exists>lg' w'. log \<lparr>fileobj = sample_file\<rparr> ''hello'' sample_world = Inr (lg', w') \<and>
      content w' ''logs/test'' = ''[09:05:00] hello'' @ newline \<and>
      buffer (fileobj lg') = [] \<and>
      trace w' = [Wrote ''logs/test'' (''[09:05:00] hello'' @ newline)])"
  using log_appends_line [of "\<lparr>fileobj = sample_file\<rparr>" "''hello''" sample_world]
  by (auto simp: sample_file_def sample_world_def sample_time_def content_def strftime_HMS_def
      pad2_def digit_def)

subsection \<open>The concrete configuration, evaluated\<close>

lemma sample_stamp: "strftime_HMS (sample_time 0) = ''[09:05:00]''"
  by (simp add: sample_time_def strftime_HMS_def pad2_def digit_def)

lemma sample_world_simps:
  "trace sample_world = []" "ticks sample_world = 0" "clock sample_world = sample_time"
  "content sample_world p = []" "openable sample_world p"
  by (simp_all add: sample_world_def content_def)

lemma sample_file_simps:
  "name sample_file = ''logs/test''" "buffer sample_file = []" "\<not> closed sample_file"
  by (simp_all add: sample_file_def)

lemma sample_bot_simps:
  "logger sample_bot = Some \<lparr>fileobj = sample_file\<rparr>" "nickname sample_bot = ''tonkon''"
  "factory sample_bot = sample_factory"
  by (simp_all add: sample_bot_def buildProtocol_def)

lemma sample_factory_simps:
  "channel sample_factory = ''test''" "key sample_factory = Some ''sesame''"
  "filename sample_factory = ''logs/test''"
  by (simp_all add: sample_factory_def LogBotFactory_init_def)

subsection \<open>Messages\<close>

text \<open>
  The display name: \<open>user.split('!', 1)[0]\<close> and \<open>prefix.split('!')[0]\<close> are both
  the sender up to its first \<open>!\<close> (item0_str_split); without a \<open>!\<close> that is the
  whole sender.
\<close>

lemma no_delimiter_split:
  "CHR ''!'' \<notin> set s \<Longrightarrow> m \<noteq> Some 0 \<Longrightarrow> item0 (str_split CHR ''!'' m s) = Inr s"
  by (auto simp: item0_str_split)

text \<open>
  C1: a message whose channel target is the bot's own nickname. With the session's logger
  open, \<open>privmsg\<close> returns normally and does exactly two things, in this order: it
  writes the log line \<open><sender> text\<close> (stamped by \<open>log\<close>, the sender cut at its first
  \<open>!\<close>), and it sends that sender the refusal text. No call of
  \<open>tonkon.command_handler\<close> is added to the trace.
\<close>

theorem privmsg_private:
  assumes "logger self = Some lg" and "\<not> closed (fileobj lg)" and "chan = nickname self"
  shows "\<exists>self' w'. privmsg usr chan text self w = Inr (self', w') \<and>
           trace w' = trace w @
             [Wrote (name (fileobj lg))
                (buffer (fileobj lg) @ strftime_HMS (clock w (ticks w)) @ '' '' @
                 ''<'' @ takeWhile (\<lambda>c. c \<noteq> CHR ''!'') usr @ ''> '' @ text @ newline),
              Msg (takeWhile (\<lambda>c. c \<noteq> CHR ''!'') usr)
                ''It isn't nice to whisper!  Play nice with the group.''] \<and>
           filter is_command (trace w') = filter is_command (trace w) \<and>
           content w' (name (fileobj lg)) =
             content w (name (fileobj lg)) @ buffer (fileobj lg) @
             strftime_HMS (clock w (ticks w)) @ '' '' @
             ''<'' @ takeWhile (\<lambda>c. c \<noteq> CHR ''!'') usr @ ''> '' @ text @ newline"
  using assms
  by (simp add: privmsg_def item0_str_split logger_log_open emit_def content_def)

theorem privmsg_private_witness:
  "logger sample_bot = Some \<lparr>fileobj = sample_file\<rparr> \<and>
   \<not> closed (fileobj \<lparr>fileobj = sample_file\<rparr>) \<and>
   ''tonkon'' = nickname sample_bot \<and>
   (\<exists>self' w'.
      privmsg ''bob!b@example.org'' ''tonkon'' ''psst'' sample_bot sample_world = Inr (self', w') \<and>
      trace w' =
        [Wrote ''logs/test'' (''[09:05:00] <bob> psst'' @ newline),
         Msg ''bob'' ''It isn't nice to whisper!  Play nice with the group.''] \<and>
      filter is_command (trace w') = [] \<and>
      content w' ''logs/test'' = ''[09:05:00] <bob> psst'' @ newline)"
  using privmsg_private [of sample_bot "\<lparr>fileobj = sample_file\<rparr>" "''tonkon''"
      "''bob!b@example.org''" "''psst''" sample_world]
  by (simp add: sample_world_simps sample_file_simps sample_bot_simps sample_stamp)

text \<open>
  C3: a message \<open>text\<close> from sender \<open>usr\<close> to a channel that is not the bot's nickname.
  With the session's logger open, \<open>privmsg\<close> returns normally and does exactly two
  things, in this order: it writes the one log line \<open><S> text\<close>, where \<open>S\<close> is \<open>usr\<close>
  with everything from its first \<open>!\<close> on removed, and it calls
  \<open>tonkon.command_handler\<close> with the bot itself, \<open>S\<close>, the channel and the text.
\<close>

theorem privmsg_public:
  assumes "logger self = Some lg" and "\<not> closed (fileobj lg)" and "chan \<noteq> nickname self"
  shows "\<exists>self' w'. privmsg usr chan text self w = Inr (self', w') \<and>
           self' = self\<lparr>logger := Some (lg\<lparr>fileobj := (fileobj lg)\<lparr>buffer := []\<rparr>\<rparr>)\<rparr> \<and>
           trace w' = trace w @
             [Wrote (name (fileobj lg))
                (buffer (fileobj lg) @ strftime_HMS (clock w (ticks w)) @ '' '' @
                 ''<'' @ takeWhile (\<lambda>c. c \<noteq> CHR ''!'') usr @ ''> '' @ text @ newline),
              Command self' (takeWhile (\<lambda>c. c \<noteq> CHR ''!'') usr) chan text] \<and>
           content w' (name (fileobj lg)) =
             content w (name (fileobj lg)) @ buffer (fileobj lg) @
             strftime_HMS (clock w (ticks w)) @ '' '' @
             ''<'' @ takeWhile (\<lambda>c. c \<noteq> CHR ''!'') usr @ ''> '' @ text @ newline"
  using assms
  by (simp add: privmsg_def item0_str_split logger_log_open emit_def content_def
      command_handler_def)

theorem privmsg_public_witness:
  "logger sample_bot = Some \<lparr>fileobj = sample_file\<rparr> \<and>
   \<not> closed (fileobj \<lparr>fileobj = sample_file\<rparr>) \<and>
   ''test'' \<noteq> nickname sample_bot \<and>
   (\<exists>self' w'.
      privmsg ''alice!a@example.org'' ''test'' ''hello'' sample_bot sample_world = Inr (self', w') \<and>
      self' = sample_bot \<and>
      trace w' =
        [Wrote ''logs/test'' (''[09:05:00] <alice> hello'' @ newline),
         Command sample_bot ''alice'' ''test'' ''hello''] \<and>
      content w' ''logs/test'' = ''[09:05:00] <alice> hello'' @ newline)"
proof -
  have same: "sample_bot\<lparr>logger := Some \<lparr>fileobj = sample_file\<lparr>buffer := []\<rparr>\<rparr>\<rparr> = sample_bot"
    by (simp add: sample_bot_def sample_file_def)
  show ?thesis
    using privmsg_public [of sample_bot "\<lparr>fileobj = sample_file\<rparr>" "''test''"
        "''alice!a@example.org''" "''hello''" sample_world]
    by (simp add: same sample_world_simps sample_file_simps sample_bot_simps sample_stamp)
qed

text \<open>
  C9: the test for a private message is equality of the two strings. Whenever the
  channel target is not equal to the bot's nickname (a difference in letter case is
  enough), the message goes to \<open>tonkon.command_handler\<close> and no reply is sent: the
  calls of the handler in the trace grow by this one, the \<open>msg\<close> calls do not grow.
\<close>

theorem privmsg_other_target_is_public:
  assumes "logger self = Some lg" and "\<not> closed (fileobj lg)" and "chan \<noteq> nickname self"
  shows "\<exists>self' w'. privmsg usr chan text self w = Inr (self', w') \<and>
           filter is_command (trace w') =
             filter is_command (trace w) @
               [Command self' (takeWhile (\<lambda>c. c \<noteq> CHR ''!'') usr) chan text] \<and>
           filter is_msg (trace w') = filter is_msg (trace w)"
  using assms
  by (simp add: privmsg_def item0_str_split logger_log_open emit_def command_handler_def)

theorem privmsg_other_target_is_public_witness:
  "logger sample_bot = Some \<lparr>fileobj = sample_file\<rparr> \<and>
   \<not> closed (fileobj \<lparr>fileobj = sample_file\<rparr>) \<and>
   ''Tonkon'' \<noteq> nickname sample_bot \<and>
   (\<exists>self' w'.
      privmsg ''bob!b@example.org'' ''Tonkon'' ''psst'' sample_bot sample_world = Inr (self', w') \<and>
      filter is_command (trace w') = [Command self' ''bob'' ''Tonkon'' ''psst''] \<and>
      filter is_msg (trace w') = [])"
  using privmsg_other_target_is_public [of sample_bot "\<lparr>fileobj = sample_file\<rparr>" "''Tonkon''"
      "''bob!b@example.org''" "''psst''" sample_world]
  by (simp add: sample_world_simps sample_file_simps sample_bot_simps)

text \<open>
  C10: a sender \<open>s\<close> that contains no \<open>!\<close> is its own display name. Both forms of the
  split return \<open>s\<close>, and each of the three handlers behaves as if it had been written
  with \<open>s\<close> in place of the split: \<open>privmsg\<close> logs \<open><s> text\<close> and replies to, or
  forwards, \<open>s\<close>; \<open>action\<close> logs \<open>* s text\<close>; \<open>irc_NICK\<close> logs
  \<open>s is now known as new\<close> (or raises on an empty parameter list).
\<close>

theorem sender_without_delimiter_unchanged:
  assumes "CHR ''!'' \<notin> set s"
  shows "item0 (str_split CHR ''!'' (Some 1) s) = Inr s \<and>
         item0 (str_split CHR ''!'' None s) = Inr s \<and>
         privmsg s chan text self w =
           (case logger_log self (''<'' @ s @ ''> '' @ text) w of
              Inl e \<Rightarrow> Inl e
            | Inr (self1, w1) \<Rightarrow>
                if chan = nickname self1
                then Inr (self1,
                       emit (Msg s ''It isn't nice to whisper!  Play nice with the group.'') w1)
                else Inr (self1, emit (Command self1 s chan text) w1)) \<and>
         action s chan text self w = logger_log self (''* '' @ s @ '' '' @ text) w \<and>
         irc_NICK s params self w =
           (case item0 params of
              Inl e \<Rightarrow> Inl e
            | Inr new_nick \<Rightarrow> logger_log self (s @ '' is now known as '' @ new_nick) w)"
  using assms
  unfolding command_handler_def [symmetric]
  by (simp add: privmsg_def action_def irc_NICK_def no_delimiter_split)

theorem sender_without_delimiter_unchanged_witness:
  "CHR ''!'' \<notin> set ''alice'' \<and>
   (\<exists>self' w'.
      privmsg ''alice'' ''test'' ''hello'' sample_bot sample_world = Inr (self', w') \<and>
      trace w' =
        [Wrote ''logs/test'' (''[09:05:00] <alice> hello'' @ newline),
         Command self' ''alice'' ''test'' ''hello'']) \<and>
   (\<exists>self' w'.
      action ''alice'' ''test'' ''waves'' sample_bot sample_world = Inr (self', w') \<and>
      trace w' = [Wrote ''logs/test'' (''[09:05:00] * alice waves'' @ newline)]) \<and>
   (\<exists>self' w'.
      irc_NICK ''alice'' [''alicia''] sample_bot sample_world = Inr (self', w') \<and>
      trace w' = [Wrote ''logs/test'' (''[09:05:00] alice is now known as alicia'' @ newline)])"
proof -
  have free: "CHR ''!'' \<notin> set ''alice''"
    by simp
  have opn: "\<not> closed (fileobj \<lparr>fileobj = sample_file\<rparr>)"
    by (simp add: sample_file_simps)
  note run = logger_log_open [OF sample_bot_simps(1) opn, of _ sample_world]
  note ev = sample_world_simps sample_file_simps sample_bot_simps sample_stamp
  from sender_without_delimiter_unchanged [OF free, of "''test''" "''hello''" sample_bot sample_world]
  have "\<exists>self' w'.
      privmsg ''alice'' ''test'' ''hello'' sample_bot sample_world = Inr (self', w') \<and>
      trace w' =
        [Wrote ''logs/test'' (''[09:05:00] <alice> hello'' @ newline),
         Command self' ''alice'' ''test'' ''hello'']"
    by (simp add: run emit_def ev)
  moreover
  from sender_without_delimiter_unchanged [OF free, of "''test''" "''waves''" sample_bot sample_world]
  have "\<exists>self' w'.
      action ''alice'' ''test'' ''waves'' sample_bot sample_world = Inr (self', w') \<and>
      trace w' = [Wrote ''logs/test'' (''[09:05:00] * alice waves'' @ newline)]"
    by (simp add: run ev)
  moreover
  from sender_without_delimiter_unchanged [OF free, of _ _ sample_bot sample_world "[''alicia'']"]
  have "\<exists>self' w'.
      irc_NICK ''alice'' [''alicia''] sample_bot sample_world = Inr (self', w') \<and>
      trace w' = [Wrote ''logs/test'' (''[09:05:00] alice is now known as alicia'' @ newline)]"
    by (simp add: run ev)
  ultimately show ?thesis
    using free by blast
qed

subsection \<open>The session\<close>

lemma connectionMade_opens:
  assumes "openable w (filename (factory self))"
  shows "connectionMade self w =
    Inr (self\<lparr>logger := Some \<lparr>fileobj =
                 \<lparr>name = filename (factory self), buffer = [], closed = False\<rparr>\<rparr>\<rparr>,
         w\<lparr>disk := (disk w)(filename (factory self) \<mapsto>
                 content w (filename (factory self)) @
                 strftime_HMS (clock w (Suc (ticks w))) @ '' '' @
                 ''[connected at '' @ asctime (clock w (ticks w)) @ '']'' @ newline),
           ticks := Suc (Suc (ticks w)),
           trace := trace w @
             [IRCClient_connectionMade, Opened (filename (factory self)),
              Wrote (filename (factory self))
                (strftime_HMS (clock w (Suc (ticks w))) @ '' '' @
                 ''[connected at '' @ asctime (clock w (ticks w)) @ '']'' @ newline)]\<rparr>)"
  using assms
  by (simp add: connectionMade_def open_append_def emit_def localtime_now_def logger_log_def
      log_def file_write_def file_flush_def content_def Let_def)

lemma connectionMade_refused:
  "\<not> openable w (filename (factory self)) \<Longrightarrow> connectionMade self w = Inl IOError"
  by (simp add: connectionMade_def open_append_def emit_def)

lemma connectionLost_open:
  assumes "logger self = Some lg" and "\<not> closed (fileobj lg)"
  shows "connectionLost reason self w =
    Inr (self\<lparr>logger := Some (lg\<lparr>fileobj := (fileobj lg)\<lparr>buffer := [], closed := True\<rparr>\<rparr>)\<rparr>,
         w\<lparr>disk := (disk w)(name (fileobj lg) \<mapsto>
                 content w (name (fileobj lg)) @ buffer (fileobj lg) @
                 strftime_HMS (clock w (Suc (ticks w))) @ '' '' @
                 ''[disconnected at '' @ asctime (clock w (ticks w)) @ '']'' @ newline),
           ticks := Suc (Suc (ticks w)),
           trace := trace w @
             [IRCClient_connectionLost reason,
              Wrote (name (fileobj lg))
                (buffer (fileobj lg) @ strftime_HMS (clock w (Suc (ticks w))) @ '' '' @
                 ''[disconnected at '' @ asctime (clock w (ticks w)) @ '']'' @ newline),
              Closed (name (fileobj lg))]\<rparr>)"
  using assms
  by (simp add: connectionLost_def emit_def localtime_now_def logger_log_def
      log_def file_write_def file_flush_def close_def file_close_def content_def Let_def)

lemma connectionLost_absent:
  "logger self = None \<Longrightarrow> connectionLost reason self w = Inl AttributeError"
  by (simp add: connectionLost_def)

lemma sample_asctime: "asctime (sample_time 0) = ''Thu Jun  5 09:05:00 2014''"
  by (simp add: asctime_def sample_time_def wday_name_def mon_name_def pad3_blank_def
      pad2_def digit_def numeral_2_eq_2)

lemma sample_stamp1: "strftime_HMS (sample_time (Suc 0)) = ''[09:05:01]''"
  by (simp add: sample_time_def strftime_HMS_def pad2_def digit_def)

text \<open>
  Between \<open>connectionMade\<close> and \<open>connectionLost\<close> the logger is open and holds
  nothing back: \<open>connectionMade\<close> leaves it so (\<open>connectionMade_opens\<close>), and every
  log call that finds it so leaves it so.
\<close>

lemma logger_stays_open:
  assumes "logger self = Some lg" and "\<not> closed (fileobj lg)"
  shows "\<exists>self' w' lg'. logger_log self m w = Inr (self', w') \<and> logger self' = Some lg' \<and>
           \<not> closed (fileobj lg') \<and> buffer (fileobj lg') = [] \<and>
           name (fileobj lg') = name (fileobj lg)"
  using assms by (simp add: logger_log_open)

text \<open>
  The log file only grows: whatever a handler that returns has done, every file holds
  what it held before, possibly followed by more.
\<close>

lemma logger_log_only_appends:
  assumes "logger_log self m w = Inr (self', w')"
  shows "\<exists>a. content w' q = content w q @ a"
proof (cases "logger self")
  case None
  with assms show ?thesis by (simp add: logger_log_def)
next
  case (Some lg)
  show ?thesis
  proof (cases "closed (fileobj lg)")
    case True
    with Some assms show ?thesis by (simp add: logger_log_def log_closed)
  next
    case False
    with Some assms show ?thesis
      by (auto simp: logger_log_open content_def)
  qed
qed

lemma handlers_only_append:
  "joined c self w = Inr (self', w') \<Longrightarrow> \<exists>a. content w' q = content w q @ a"
  "action usr chan text self w = Inr (self', w') \<Longrightarrow> \<exists>a. content w' q = content w q @ a"
  "irc_NICK usr params self w = Inr (self', w') \<Longrightarrow> \<exists>a. content w' q = content w q @ a"
  "privmsg usr chan text self w = Inr (self', w') \<Longrightarrow> \<exists>a. content w' q = content w q @ a"
proof -
  show "joined c self w = Inr (self', w') \<Longrightarrow> \<exists>a. content w' q = content w q @ a"
    by (simp add: joined_def logger_log_only_appends)
  show "action usr chan text self w = Inr (self', w') \<Longrightarrow> \<exists>a. content w' q = content w q @ a"
    by (simp add: action_def item0_str_split logger_log_only_appends)
  show "irc_NICK usr params self w = Inr (self', w') \<Longrightarrow> \<exists>a. content w' q = content w q @ a"
    by (cases params) (simp_all add: irc_NICK_def item0_str_split logger_log_only_appends)
  show "privmsg usr chan text self w = Inr (self', w') \<Longrightarrow> \<exists>a. content w' q = content w q @ a"
  proof -
    assume run: "privmsg usr chan text self w = Inr (self', w')"
    then obtain s1 w1 where
      lg: "logger_log self (''<'' @ takeWhile (\<lambda>c. c \<noteq> CHR ''!'') usr @ ''> '' @ text) w = Inr (s1, w1)"
      and w': "disk w' = disk w1"
      by (auto simp: privmsg_def item0_str_split emit_def command_handler_def
          split: sum.splits if_splits)
    from logger_log_only_appends [OF lg, of q] w' show ?thesis
      by (simp add: content_def)
  qed
qed

text \<open>
  C8: \<open>signedOn\<close> leaves the bot as it is and issues exactly one request, the join of
  the factory's channel with the factory's key. \<open>joined\<close> for channel \<open>c\<close>, with the
  session's logger open, writes exactly one log line, \<open>[I have joined c]\<close> behind the
  stamp.
\<close>

theorem signedOn_joins_and_joined_logs:
  assumes "logger self = Some lg" and "\<not> closed (fileobj lg)"
  shows "fst (signedOn self w) = self \<and>
         trace (snd (signedOn self w)) =
           trace w @ [Join (channel (factory self)) (key (factory self))] \<and>
         (\<exists>self' w'. joined c self w = Inr (self', w') \<and>
            trace w' = trace w @
              [Wrote (name (fileobj lg))
                 (buffer (fileobj lg) @ strftime_HMS (clock w (ticks w)) @ '' '' @
                  ''[I have joined '' @ c @ '']'' @ newline)] \<and>
            content w' (name (fileobj lg)) =
              content w (name (fileobj lg)) @ buffer (fileobj lg) @
              strftime_HMS (clock w (ticks w)) @ '' '' @
              ''[I have joined '' @ c @ '']'' @ newline)"
  using assms
  by (simp add: signedOn_def joined_def emit_def logger_log_open content_def)

theorem signedOn_joins_and_joined_logs_witness:
  "logger sample_bot = Some \<lparr>fileobj = sample_file\<rparr> \<and>
   \<not> closed (fileobj \<lparr>fileobj = sample_file\<rparr>) \<and>
   trace (snd (signedOn sample_bot sample_world)) = [Join ''test'' (Some ''sesame'')] \<and>
   (\<exists>self' w'. joined ''test'' sample_bot sample_world = Inr (self', w') \<and>
      trace w' = [Wrote ''logs/test'' (''[09:05:00] [I have joined test]'' @ newline)] \<and>
      content w' ''logs/test'' = ''[09:05:00] [I have joined test]'' @ newline)"
  using signedOn_joins_and_joined_logs [of sample_bot "\<lparr>fileobj = sample_file\<rparr>" sample_world
      "''test''"]
  by (simp add: sample_world_simps sample_file_simps sample_bot_simps sample_factory_simps
      sample_stamp)

text \<open>
  C4, as the code has it: \<open>connectionLost\<close> first runs the base class's teardown. With
  the logger present and open it then writes the line \<open>[disconnected at ...]\<close> (the
  date and time of the first clock reading, stamped with the second) and closes the
  logger. With no logger, reading \<open>self.logger\<close> raises \<open>AttributeError\<close>: nothing is
  logged or closed and the exception reaches the caller.
\<close>

theorem connectionLost_teardown:
  "(logger self = Some lg \<and> \<not> closed (fileobj lg) \<longrightarrow>
      (\<exists>self' w' lg'. connectionLost reason self w = Inr (self', w') \<and>
         trace w' = trace w @
           [IRCClient_connectionLost reason,
            Wrote (name (fileobj lg))
              (buffer (fileobj lg) @ strftime_HMS (clock w (Suc (ticks w))) @ '' '' @
               ''[disconnected at '' @ asctime (clock w (ticks w)) @ '']'' @ newline),
            Closed (name (fileobj lg))] \<and>
         logger self' = Some lg' \<and> closed (fileobj lg') \<and> buffer (fileobj lg') = [])) \<and>
   (logger self = None \<longrightarrow> connectionLost reason self w = Inl AttributeError)"
  by (simp add: connectionLost_open connectionLost_absent)

theorem connectionLost_teardown_witness:
  "logger sample_bot = Some \<lparr>fileobj = sample_file\<rparr> \<and>
   \<not> closed (fileobj \<lparr>fileobj = sample_file\<rparr>) \<and>
   (\<exists>self' w' lg'. connectionLost ''bye'' sample_bot sample_world = Inr (self', w') \<and>
      trace w' =
        [IRCClient_connectionLost ''bye'',
         Wrote ''logs/test'' (''[09:05:01] [disconnected at Thu Jun  5 09:05:00 2014]'' @ newline),
         Closed ''logs/test''] \<and>
      logger self' = Some lg' \<and> closed (fileobj lg') \<and> buffer (fileobj lg') = []) \<and>
   logger (buildProtocol sample_factory) = None \<and>
   connectionLost ''bye'' (buildProtocol sample_factory) sample_world = Inl AttributeError"
proof -
  have none: "logger (buildProtocol sample_factory) = None"
    by (simp add: buildProtocol_def)
  show ?thesis
    using connectionLost_teardown [of sample_bot "\<lparr>fileobj = sample_file\<rparr>" "''bye''" sample_world]
      connectionLost_teardown [of "buildProtocol sample_factory" "\<lparr>fileobj = sample_file\<rparr>"
        "''bye''" sample_world]
    by (simp add: none sample_world_simps sample_file_simps sample_bot_simps sample_stamp1
        sample_asctime)
qed

text \<open>
  C4 as stated, with a missing logger tolerated, fails on a bot whose \<open>connectionMade\<close>
  never assigned the logger (for instance because \<open>open\<close> raised, see
  \<open>connectionMade_refused\<close>): the call raises.
\<close>

theorem connectionLost_without_logger_raises:
  "connectionLost ''bye'' (buildProtocol sample_factory) sample_world = Inl AttributeError"
  by (simp add: connectionLost_def buildProtocol_def)

text \<open>
  C7: the factory of channel \<open>c\<close> names the file \<open>logs/c\<close>. In any world where that
  path can be opened (whatever earlier sessions left in the file), a session opens it and
  appends its \<open>connected\<close> line; closing the session appends the \<open>disconnected\<close>
  line; a new session for the same channel opens the same path and appends again. Each
  step keeps everything the file held before it.
\<close>

theorem log_file_reopened_for_append:
  assumes "openable w (''logs/'' @ c)"
  shows "filename (LogBotFactory_init c k d) = ''logs/'' @ c \<and>
    (\<exists>s1 w1 s2 w2 s3 w3.
       connectionMade (buildProtocol (LogBotFactory_init c k d)) w = Inr (s1, w1) \<and>
       connectionLost reason s1 w1 = Inr (s2, w2) \<and>
       connectionMade (buildProtocol (LogBotFactory_init c k d)) w2 = Inr (s3, w3) \<and>
       content w1 (''logs/'' @ c) = content w (''logs/'' @ c) @
         strftime_HMS (clock w (ticks w + 1)) @ '' '' @
         ''[connected at '' @ asctime (clock w (ticks w)) @ '']'' @ newline \<and>
       content w2 (''logs/'' @ c) = content w1 (''logs/'' @ c) @
         strftime_HMS (clock w (ticks w + 3)) @ '' '' @
         ''[disconnected at '' @ asctime (clock w (ticks w + 2)) @ '']'' @ newline \<and>
       content w3 (''logs/'' @ c) = content w2 (''logs/'' @ c) @
         strftime_HMS (clock w (ticks w + 5)) @ '' '' @
         ''[connected at '' @ asctime (clock w (ticks w + 4)) @ '']'' @ newline \<and>
       filter is_opened (trace w3) =
         filter is_opened (trace w) @ [Opened (''logs/'' @ c), Opened (''logs/'' @ c)])"
proof -
  define f where "f = LogBotFactory_init c k d"
  define p where "p = ''logs/'' @ c"
  have fp: "filename (factory (buildProtocol f)) = p"
    by (simp add: f_def p_def buildProtocol_def LogBotFactory_init_def)
  have o0: "openable w (filename (factory (buildProtocol f)))"
    using assms by (simp add: fp p_def)
  note m1 = connectionMade_opens [OF o0, unfolded fp]
  define s1 where "s1 = (buildProtocol f)\<lparr>logger := Some \<lparr>fileobj =
                 \<lparr>name = p, buffer = [], closed = False\<rparr>\<rparr>\<rparr>"
  obtain w1 where r1: "connectionMade (buildProtocol f) w = Inr (s1, w1)"
    and c1: "content w1 p = content w p @ strftime_HMS (clock w (ticks w + 1)) @ '' '' @
         ''[connected at '' @ asctime (clock w (ticks w)) @ '']'' @ newline"
    and t1: "ticks w1 = ticks w + 2" "clock w1 = clock w" "openable w1 = openable w"
    and o1: "filter is_opened (trace w1) = filter is_opened (trace w) @ [Opened p]"
    by (simp add: m1 s1_def content_def eval_nat_numeral)
  have lg1: "logger s1 = Some \<lparr>fileobj = \<lparr>name = p, buffer = [], closed = False\<rparr>\<rparr>"
    by (simp add: s1_def)
  have open1: "\<not> closed (fileobj \<lparr>fileobj = \<lparr>name = p, buffer = [], closed = False\<rparr>\<rparr>)"
    by simp
  note l2 = connectionLost_open [OF lg1 open1, of reason w1]
  obtain s2 w2 where r2: "connectionLost reason s1 w1 = Inr (s2, w2)"
    and c2: "content w2 p = content w1 p @ strftime_HMS (clock w (ticks w + 3)) @ '' '' @
         ''[disconnected at '' @ asctime (clock w (ticks w + 2)) @ '']'' @ newline"
    and t2: "ticks w2 = ticks w + 4" "clock w2 = clock w" "openable w2 = openable w"
    and o2: "filter is_opened (trace w2) = filter is_opened (trace w) @ [Opened p]"
    by (simp add: l2 t1 o1 content_def eval_nat_numeral)
  have o2': "openable w2 (filename (factory (buildProtocol f)))"
    using assms by (simp add: fp p_def t2)
  note m3 = connectionMade_opens [OF o2', unfolded fp]
  obtain s3 w3 where r3: "connectionMade (buildProtocol f) w2 = Inr (s3, w3)"
    and c3: "content w3 p = content w2 p @ strftime_HMS (clock w (ticks w + 5)) @ '' '' @
         ''[connected at '' @ asctime (clock w (ticks w + 4)) @ '']'' @ newline"
    and o3: "filter is_opened (trace w3) = filter is_opened (trace w) @ [Opened p, Opened p]"
    by (simp add: m3 t2 o2 content_def eval_nat_numeral)
  have "filename (LogBotFactory_init c k d) = ''logs/'' @ c"
    by (simp add: LogBotFactory_init_def)
  with r1 r2 r3 c1 c2 c3 o3 show ?thesis
    unfolding f_def p_def by blast
qed

theorem log_file_reopened_for_append_witness:
  "openable sample_world (''logs/'' @ ''test'') \<and>
   filename (LogBotFactory_init ''test'' None 0) = ''logs/'' @ ''test'' \<and>
   (\<exists>s1 w1 s2 w2 s3 w3.
      connectionMade (buildProtocol (LogBotFactory_init ''test'' None 0)) sample_world = Inr (s1, w1) \<and>
      connectionLost ''bye'' s1 w1 = Inr (s2, w2) \<and>
      connectionMade (buildProtocol (LogBotFactory_init ''test'' None 0)) w2 = Inr (s3, w3) \<and>
      content w1 (''logs/'' @ ''test'') =
        ''[09:05:01] [connected at Thu Jun  5 09:05:00 2014]'' @ newline \<and>
      content w2 (''logs/'' @ ''test'') = content w1 (''logs/'' @ ''test'') @
        ''[09:05:03] [disconnected at Thu Jun  5 09:05:02 2014]'' @ newline \<and>
      content w3 (''logs/'' @ ''test'') = content w2 (''logs/'' @ ''test'') @
        ''[09:05:05] [connected at Thu Jun  5 09:05:04 2014]'' @ newline \<and>
      filter is_opened (trace w3) =
        [Opened (''logs/'' @ ''test''), Opened (''logs/'' @ ''test'')])"
proof -
  have stamps:
    "strftime_HMS (sample_time (Suc 0)) = ''[09:05:01]''"
    "strftime_HMS (sample_time 3) = ''[09:05:03]''"
    "strftime_HMS (sample_time 5) = ''[09:05:05]''"
    by (simp_all add: sample_time_def strftime_HMS_def pad2_def digit_def)
  have dates:
    "asctime (sample_time 0) = ''Thu Jun  5 09:05:00 2014''"
    "asctime (sample_time (Suc (Suc 0))) = ''Thu Jun  5 09:05:02 2014''"
    "asctime (sample_time 4) = ''Thu Jun  5 09:05:04 2014''"
    by (simp_all add: asctime_def sample_time_def wday_name_def mon_name_def pad3_blank_def
        pad2_def digit_def numeral_2_eq_2)
  have opn: "openable sample_world (''logs/'' @ ''test'')"
    by (simp add: sample_world_simps)
  from log_file_reopened_for_append [OF opn, of None 0 "''bye''"]
  show ?thesis
    by (simp add: sample_world_simps stamps dates)
qed

subsection \<open>The factory\<close>

text \<open>
  C2: \<open>clientConnectionFailed\<close> prints the reason and stops the reactor, and asks for
  no connection: the \<open>connect\<close> calls in the trace stay as they were.
  \<open>clientConnectionLost\<close> does one thing, \<open>connector.connect()\<close> on the connector it
  was given, whatever happened before and without consulting the clock: any number of
  losses in a row gives that many \<open>connect\<close> calls.
\<close>

theorem supervisor_asymmetric:
  "trace (clientConnectionFailed self connector reason w) =
     trace w @ [Print (''connection failed: '' @ reason), ReactorStop] \<and>
   filter is_connect (trace (clientConnectionFailed self connector reason w)) =
     filter is_connect (trace w) \<and>
   trace (clientConnectionLost self connector reason w) = trace w @ [Connect connector] \<and>
   ticks (clientConnectionLost self connector reason w) = ticks w \<and>
   trace (fold (clientConnectionLost self connector) reasons w) =
     trace w @ replicate (length reasons) (Connect connector)"
proof -
  have "trace (fold (clientConnectionLost self connector) reasons w) =
          trace w @ replicate (length reasons) (Connect connector)"
  proof (induction reasons arbitrary: w)
    case Nil
    show ?case by simp
  next
    case (Cons r rs)
    show ?case
      by (simp add: Cons.IH) (simp add: clientConnectionLost_def emit_def replicate_app_Cons_same)
  qed
  then show ?thesis
    by (simp add: clientConnectionFailed_def clientConnectionLost_def emit_def)
qed

subsection \<open>Nickname collisions\<close>

lemma alterCollidedNick_funpow:
  "(alterCollidedNick ^^ i) n = n @ replicate i CHR ''^''"
proof (induction i)
  case 0
  show ?case by simp
next
  case (Suc i)
  then show ?case
    by (simp add: alterCollidedNick_def replicate_append_same)
qed

text \<open>
  C6: \<open>alterCollidedNick\<close> appends the one character \<open>^\<close>. In the sequence of
  candidates that repeated collisions produce from \<open>n\<close>, each candidate is its
  predecessor followed by \<open>^\<close>, and two candidates are equal only at the same position.
\<close>

theorem alterCollidedNick_appends_marker:
  "alterCollidedNick n = n @ [CHR ''^''] \<and>
   (alterCollidedNick ^^ Suc i) n = (alterCollidedNick ^^ i) n @ [CHR ''^''] \<and>
   ((alterCollidedNick ^^ i) n = (alterCollidedNick ^^ j) n) = (i = j)"
proof -
  have "((alterCollidedNick ^^ i) n = (alterCollidedNick ^^ j) n) = (i = j)"
  proof
    assume "(alterCollidedNick ^^ i) n = (alterCollidedNick ^^ j) n"
    then have "length (n @ replicate i CHR ''^'') = length (n @ replicate j CHR ''^'')"
      by (simp only: alterCollidedNick_funpow)
    then show "i = j" by simp
  next
    assume "i = j"
    then show "(alterCollidedNick ^^ i) n = (alterCollidedNick ^^ j) n" by simp
  qed
  then show ?thesis
    by (simp add: alterCollidedNick_def)
qed

end
